theory Spec2Isabelle
  imports Main
begin

section \<open>Values of the props tree\<close>

text \<open>
  The module caches the markup of React components and re-substitutes selected props
  ("template attributes") into the cached markup.  A props tree is modelled as a
  JSON-like value: scalars, plain objects (own enumerable string keys, in insertion
  order) and dense arrays.  Numbers are integers.  Properties inherited from a
  prototype (a key such as \<open>constructor\<close>, \<open>__proto__\<close> or the \<open>length\<close> of an
  array reads as absent), non-index properties of arrays, getters and frozen objects
  are outside the model.  An object is an association list; a JavaScript object has
  no duplicate keys, which \<open>wf_val\<close> states.
\<close>

datatype jsval =
    JUndefined
  | JNull
  | JBool bool
  | JNum int
  | JStr string
  | JObj "(string \<times> jsval) list"
  | JArr "jsval list"



fun isArray :: "jsval \<Rightarrow> bool" where
  "isArray (JArr xs) = True"
| "isArray v = False"

fun isObject :: "jsval \<Rightarrow> bool" where
  "isObject (JObj kvs) = True"
| "isObject (JArr xs) = True"
| "isObject v = False"

subsection \<open>String coercion\<close>

definition digit_char :: "nat \<Rightarrow> char" where
  "digit_char d = ''0123456789'' ! d"

fun show_nat :: "nat \<Rightarrow> string" where
  "show_nat n = (if n < 10 then [digit_char n] else show_nat (n div 10) @ [digit_char (n mod 10)])"

declare show_nat.simps [simp del]

definition show_int :: "int \<Rightarrow> string" where
  "show_int i = (if i < 0 then CHR ''-'' # show_nat (nat (- i)) else show_nat (nat i))"

fun join :: "string \<Rightarrow> string list \<Rightarrow> string" where
  "join sep [] = []"
| "join sep [x] = x"
| "join sep (x # y # ys) = x @ sep @ join sep (y # ys)"

text \<open>
  \<open>'' + v\<close> and \<open>`${v}`\<close>: the string coercion of JavaScript.  An array joins its
  elements with a comma, \<open>null\<close> and \<open>undefined\<close> elements giving the empty string.
\<close>

fun toString :: "jsval \<Rightarrow> string"
  and elemStrings :: "jsval list \<Rightarrow> string list" where
  "toString JUndefined = ''undefined''"
| "toString JNull = ''null''"
| "toString (JBool b) = (if b then ''true'' else ''false'')"
| "toString (JNum i) = show_int i"
| "toString (JStr s) = s"
| "toString (JObj kvs) = ''[object Object]''"
| "toString (JArr xs) = join '','' (elemStrings xs)"
| "elemStrings [] = []"
| "elemStrings (x # xs) =
     (if x = JUndefined \<or> x = JNull then [] else toString x) # elemStrings xs"

subsection \<open>Text escaping\<close>

text \<open>
  \<open>escapeTextContentForBrowser\<close> is a function of react-dom, which the module
  imports: it coerces its argument to a string and replaces the five characters
  that are significant in markup.
\<close>

definition dquote :: char where
  "dquote = CHR 0x22"

fun escapeChar :: "char \<Rightarrow> string" where
  "escapeChar c =
     (if c = CHR ''&'' then ''&amp;''
      else if c = CHR ''<'' then ''&lt;''
      else if c = CHR ''>'' then ''&gt;''
      else if c = dquote then ''&quot;''
      else if c = CHR 0x27 then ''&#x27;''
      else [c])"

definition escapeHtml :: "string \<Rightarrow> string" where
  "escapeHtml s = concat (map escapeChar s)"

definition escapeTextContentForBrowser :: "jsval \<Rightarrow> string" where
  "escapeTextContentForBrowser text =
     (case text of
        JBool b \<Rightarrow> toString text
      | JNum n \<Rightarrow> toString text
      | _ \<Rightarrow> escapeHtml (toString text))"

section \<open>PathCodec: flat keys\<close>

text \<open>
  \<open>propKey.replace(/_/gi, "__").replace(/\./gi, "_")\<close>: every underscore is
  doubled, then every dot becomes one underscore.
\<close>

definition replaceUnderscores :: "string \<Rightarrow> string" where
  "replaceUnderscores s = concat (map (\<lambda>c. if c = CHR ''_'' then ''__'' else [c]) s)"

definition replaceDots :: "string \<Rightarrow> string" where
  "replaceDots s = map (\<lambda>c. if c = CHR ''.'' then CHR ''_'' else c) s"

definition flatKey :: "string \<Rightarrow> string" where
  "flatKey propKey = replaceDots (replaceUnderscores propKey)"

section \<open>lodash paths: \<open>get\<close> and \<open>set\<close>\<close>

text \<open>
  \<open>get\<close> and \<open>set\<close> are lodash functions; the module calls them with path
  strings.  \<open>stringToPath\<close> follows lodash's scanner: a run of characters other than
  \<open>.\<close>, \<open>[\<close> and \<open>]\<close> is a segment, \<open>[12]\<close> and \<open>["key"]\<close> are segments,
  and an empty segment stands between two adjacent separators.
\<close>

definition is_digit :: "char \<Rightarrow> bool" where
  "is_digit c = (c \<in> set ''0123456789'')"

definition is_word_char :: "char \<Rightarrow> bool" where
  "is_word_char c =
     (let n = (of_char c :: nat)
      in (48 \<le> n \<and> n \<le> 57) \<or> (65 \<le> n \<and> n \<le> 90) \<or> n = 95 \<or> (97 \<le> n \<and> n \<le> 122))"

definition backslash :: char where
  "backslash = CHR 0x5C"

definition propNameChar :: "char \<Rightarrow> bool" where
  "propNameChar c = (c \<noteq> CHR ''.'' \<and> c \<noteq> CHR ''['' \<and> c \<noteq> CHR '']'')"

definition startsWith :: "string \<Rightarrow> string \<Rightarrow> bool" where
  "startsWith s p = (take (length p) s = p)"

text \<open>
  The alternative \<open>-?\d+(?:\.\d+)?\<close> followed by \<open>]\<close>, tried on the text after \<open>[\<close>:
  the number's text and how many characters were read, the \<open>]\<close> included.
\<close>

definition bracketNumber :: "string \<Rightarrow> (string \<times> nat) option" where
  "bracketNumber cs =
     (let sgn = (if startsWith cs ''-'' then 1 else 0);
          ds = takeWhile is_digit (drop sgn cs);
          n1 = sgn + length ds;
          after = drop n1 cs
      in if ds = [] then None
         else if startsWith after '']'' then Some (take n1 cs, Suc n1)
         else if startsWith after ''.'' then
           (let fs = takeWhile is_digit (drop (Suc n1) cs);
                n2 = Suc n1 + length fs
            in if fs \<noteq> [] \<and> startsWith (drop n2 cs) '']'' then Some (take n2 cs, Suc n2)
               else None)
         else None)"

text \<open>
  The quoted alternative: after the opening quote \<open>q\<close>, the shortest body of
  characters other than \<open>q\<close> and backslash, or backslash and one character, that is
  followed by \<open>q]\<close>.  The result counts the characters read after the opening quote.
\<close>

fun quotedBody :: "char \<Rightarrow> string \<Rightarrow> (string \<times> nat) option" where
  "quotedBody q [] = None"
| "quotedBody q [c] = None"
| "quotedBody q (c # d # ds) =
     (if c = q then (if d = CHR '']'' then Some ([], 2) else None)
      else if c = backslash then
        (case quotedBody q ds of None \<Rightarrow> None | Some (b, n) \<Rightarrow> Some (c # d # b, n + 2))
      else
        (case quotedBody q (d # ds) of None \<Rightarrow> None | Some (b, n) \<Rightarrow> Some (c # b, Suc n)))"

definition bracketQuoted :: "string \<Rightarrow> (string \<times> nat) option" where
  "bracketQuoted cs =
     (case cs of
        [] \<Rightarrow> None
      | q # rest \<Rightarrow>
          if q = dquote \<or> q = CHR 0x27 then
            (case quotedBody q rest of None \<Rightarrow> None | Some (b, n) \<Rightarrow> Some (b, Suc n))
          else None)"

text \<open>\<open>replace(/\\(\\)?/g, "$1")\<close>: a backslash goes, a doubled one leaves one.\<close>

fun unescapePath :: "string \<Rightarrow> string" where
  "unescapePath [] = []"
| "unescapePath [c] = (if c = backslash then [] else [c])"
| "unescapePath (c # d # ds) =
     (if c = backslash then (if d = backslash then d # unescapePath ds else unescapePath (d # ds))
      else c # unescapePath (d # ds))"

text \<open>The look-ahead \<open>(?=(?:\.|\[\])(?:\.|\[\]|$))\<close>: an empty segment starts here.\<close>

definition emptySegmentAt :: "string \<Rightarrow> bool" where
  "emptySegmentAt s =
     (let rest = (if startsWith s ''.'' then Some (drop 1 s)
                  else if startsWith s ''[]'' then Some (drop 2 s) else None)
      in case rest of
           None \<Rightarrow> False
         | Some r \<Rightarrow> r = [] \<or> startsWith r ''.'' \<or> startsWith r ''[]'')"

function scanPath :: "string \<Rightarrow> string list" where
  "scanPath [] = []"
| "scanPath (c # cs) =
     (if propNameChar c then
        takeWhile propNameChar (c # cs) # scanPath (dropWhile propNameChar cs)
      else if c = CHR ''['' then
        (case bracketNumber cs of
           Some (num, n) \<Rightarrow> num # scanPath (drop n cs)
         | None \<Rightarrow>
            (case bracketQuoted cs of
               Some (body, n) \<Rightarrow> unescapePath body # scanPath (drop n cs)
             | None \<Rightarrow> (if emptySegmentAt (c # cs) then [] # scanPath cs else scanPath cs)))
      else if emptySegmentAt (c # cs) then [] # scanPath cs
      else scanPath cs)"
  by pat_completeness auto
termination
  by (relation "measure length") (auto simp: le_imp_less_Suc length_dropWhile_le)

declare scanPath.simps [simp del]

definition stringToPath :: "string \<Rightarrow> string list" where
  "stringToPath s = (if startsWith s ''.'' then [[]] else []) @ scanPath s"

text \<open>Array indices: the canonical decimal numerals (\<open>/^(?:0|[1-9]\d*)$/\<close>).\<close>

definition digitsValue :: "string \<Rightarrow> nat" where
  "digitsValue s = foldl (\<lambda>a c. 10 * a + (of_char c - 48)) 0 s"

definition parseIndex :: "string \<Rightarrow> nat option" where
  "parseIndex s =
     (if s \<noteq> [] \<and> list_all is_digit s \<and> (hd s \<noteq> CHR ''0'' \<or> length s = 1)
      then Some (digitsValue s) else None)"

definition isIndex :: "string \<Rightarrow> bool" where
  "isIndex s = (parseIndex s \<noteq> None)"

text \<open>Own properties: \<open>object[key]\<close> and \<open>key in Object(object)\<close>.\<close>

fun getProp :: "jsval \<Rightarrow> string \<Rightarrow> jsval" where
  "getProp (JObj kvs) k = (case map_of kvs k of Some v \<Rightarrow> v | None \<Rightarrow> JUndefined)"
| "getProp (JArr xs) k =
     (case parseIndex k of
        Some i \<Rightarrow> if i < length xs then xs ! i else JUndefined
      | None \<Rightarrow> JUndefined)"
| "getProp (JStr s) k =
     (case parseIndex k of
        Some i \<Rightarrow> if i < length s then JStr [s ! i] else JUndefined
      | None \<Rightarrow> JUndefined)"
| "getProp v k = JUndefined"

fun hasProp :: "jsval \<Rightarrow> string \<Rightarrow> bool" where
  "hasProp (JObj kvs) k = (k \<in> set (map fst kvs))"
| "hasProp (JArr xs) k = (case parseIndex k of Some i \<Rightarrow> i < length xs | None \<Rightarrow> False)"
| "hasProp (JStr s) k = (case parseIndex k of Some i \<Rightarrow> i < length s | None \<Rightarrow> False)"
| "hasProp v k = False"

text \<open>
  \<open>isKey\<close>: a path string is one key when it is plain (\<open>/^\w*$/\<close>), or has neither a
  dot nor a bracketed part, or is itself a property of the object.
\<close>

fun hasBracketPart :: "string \<Rightarrow> bool" where
  "hasBracketPart [] = False"
| "hasBracketPart (c # cs) =
     ((c = CHR ''['' \<and>
        (startsWith (dropWhile (\<lambda>d. d \<noteq> CHR ''['' \<and> d \<noteq> CHR '']'') cs) '']''
         \<or> (case bracketQuoted cs of Some r \<Rightarrow> True | None \<Rightarrow> False)))
      \<or> hasBracketPart cs)"

definition reIsDeepProp :: "string \<Rightarrow> bool" where
  "reIsDeepProp s = (CHR ''.'' \<in> set s \<or> hasBracketPart s)"

definition isKey :: "string \<Rightarrow> jsval \<Rightarrow> bool" where
  "isKey path object =
     (list_all is_word_char path \<or> \<not> reIsDeepProp path
      \<or> (object \<noteq> JUndefined \<and> object \<noteq> JNull \<and> hasProp object path))"

definition castPath :: "string \<Rightarrow> jsval \<Rightarrow> string list" where
  "castPath path object = (if isKey path object then [path] else stringToPath path)"

text \<open>\<open>baseGet\<close>: follow the keys while the value is neither \<open>null\<close> nor \<open>undefined\<close>.\<close>

fun baseGet :: "jsval \<Rightarrow> string list \<Rightarrow> jsval" where
  "baseGet object [] = object"
| "baseGet object (key # path) =
     (if object = JUndefined \<or> object = JNull then JUndefined
      else baseGet (getProp object key) path)"

definition lodash_get :: "jsval \<Rightarrow> string \<Rightarrow> jsval" where
  "lodash_get object path =
     (if object = JUndefined \<or> object = JNull then JUndefined
      else (case castPath path object of [] \<Rightarrow> JUndefined | ks \<Rightarrow> baseGet object ks))"

text \<open>
  \<open>baseSet\<close>: on the way down, a value that is not an object is replaced by a new
  array (when the next key is an index) or a new object; the last key is assigned.
  The model returns the updated object, the JavaScript updates it in place.
\<close>

fun assignField :: "(string \<times> jsval) list \<Rightarrow> string \<Rightarrow> jsval \<Rightarrow> (string \<times> jsval) list" where
  "assignField [] k v = [(k, v)]"
| "assignField (kv # kvs) k v =
     (if fst kv = k then (k, v) # kvs else kv # assignField kvs k v)"

fun assignValue :: "jsval \<Rightarrow> string \<Rightarrow> jsval \<Rightarrow> jsval" where
  "assignValue (JObj kvs) k v = JObj (assignField kvs k v)"
| "assignValue (JArr xs) k v =
     (case parseIndex k of
        Some i \<Rightarrow>
          JArr (if i < length xs then xs[i := v]
                else xs @ replicate (i - length xs) JUndefined @ [v])
      | None \<Rightarrow> JArr xs)"
| "assignValue object k v = object"

fun baseSet :: "jsval \<Rightarrow> string list \<Rightarrow> jsval \<Rightarrow> jsval" where
  "baseSet nested [] v = nested"
| "baseSet nested [key] v = assignValue nested key v"
| "baseSet nested (key # key' # path) v =
     (let objValue = getProp nested key;
          newValue = (if isObject objValue then objValue
                      else if isIndex key' then JArr [] else JObj [])
      in assignValue nested key (baseSet newValue (key' # path) v))"

definition lodash_set :: "jsval \<Rightarrow> string \<Rightarrow> jsval \<Rightarrow> jsval" where
  "lodash_set object path v =
     (if isObject object then baseSet object (castPath path object) v else object)"

section \<open>Flattening and restoring template attributes\<close>

text \<open>
  \<open>templatizeAttr\<close> changes three objects of its caller: the props (through
  \<open>origProps\<close>), the lookup table and the list of array fingerprints.  The model passes
  them as a state.  \<open>mapKeys\<close> visits the own keys of an object in order, the
  \<open>for\<close> loop the indices of an array.  Both read a field when they reach it; the
  model walks the value as \<open>get\<close> returned it.  The two agree as long as each
  \<open>set\<close> changes only the leaf that is being visited, which is the case for the
  keys that \<open>plainKeys\<close> describes below, and whenever no leaf is written.
\<close>

record tstate =
  origProps :: jsval
  lookupPropTable :: "string \<rightharpoonup> string"
  addlCacheForArr :: "string list"

fun templatizeAttr :: "tstate \<Rightarrow> string \<Rightarrow> string \<Rightarrow> jsval \<Rightarrow> tstate"
  and templatizeKeys :: "tstate \<Rightarrow> string \<Rightarrow> (string \<times> jsval) list \<Rightarrow> tstate"
  and templatizeItems :: "tstate \<Rightarrow> string \<Rightarrow> nat \<Rightarrow> jsval list \<Rightarrow> tstate" where
  "templatizeAttr st propKey arrNotaKey (JObj kvs) = templatizeKeys st propKey kvs"
| "templatizeAttr st propKey arrNotaKey (JArr xs) =
     templatizeItems
       (st\<lparr>addlCacheForArr := addlCacheForArr st @ [propKey @ ''_'' @ show_nat (length xs)]\<rparr>)
       propKey 0 xs"
| "templatizeAttr st propKey arrNotaKey propValue =
     (let attrKey = flatKey propKey
      in st\<lparr>lookupPropTable :=
               (lookupPropTable st)(attrKey \<mapsto> escapeTextContentForBrowser propValue),
             origProps := lodash_set (origProps st) arrNotaKey (JStr (''${'' @ attrKey @ ''}''))\<rparr>)"
| "templatizeKeys st propKey [] = st"
| "templatizeKeys st propKey (kv # kvs) =
     templatizeKeys
       (templatizeAttr st (propKey @ ''.'' @ fst kv)
          (propKey @ ''['' @ [dquote] @ fst kv @ [dquote] @ '']'') (snd kv))
       propKey kvs"
| "templatizeItems st propKey i [] = st"
| "templatizeItems st propKey i (x # xs) =
     templatizeItems
       (templatizeAttr st (propKey @ ''.'' @ show_nat i)
          (propKey @ ''['' @ show_nat i @ '']'') x)
       propKey (Suc i) xs"

text \<open>\<open>lookupPropTable[_attrKey]\<close> is \<open>undefined\<close> when the table has no such key.\<close>

definition tableValue :: "(string \<rightharpoonup> string) \<Rightarrow> string \<Rightarrow> jsval" where
  "tableValue tbl k = (case tbl k of Some s \<Rightarrow> JStr s | None \<Rightarrow> JUndefined)"

fun restoreAttr :: "jsval \<Rightarrow> (string \<rightharpoonup> string) \<Rightarrow> string \<Rightarrow> string \<Rightarrow> jsval \<Rightarrow> jsval"
  and restoreKeys :: "jsval \<Rightarrow> (string \<rightharpoonup> string) \<Rightarrow> string \<Rightarrow> (string \<times> jsval) list \<Rightarrow> jsval"
  and restoreItems :: "jsval \<Rightarrow> (string \<rightharpoonup> string) \<Rightarrow> string \<Rightarrow> nat \<Rightarrow> jsval list \<Rightarrow> jsval" where
  "restoreAttr root tbl propKey arrNotaKey (JObj kvs) = restoreKeys root tbl propKey kvs"
| "restoreAttr root tbl propKey arrNotaKey (JArr xs) = restoreItems root tbl propKey 0 xs"
| "restoreAttr root tbl propKey arrNotaKey propValue =
     lodash_set root arrNotaKey (tableValue tbl (flatKey propKey))"
| "restoreKeys root tbl propKey [] = root"
| "restoreKeys root tbl propKey (kv # kvs) =
     restoreKeys
       (restoreAttr root tbl (propKey @ ''.'' @ fst kv)
          (propKey @ ''['' @ [dquote] @ fst kv @ [dquote] @ '']'') (snd kv))
       tbl propKey kvs"
| "restoreItems root tbl propKey i [] = root"
| "restoreItems root tbl propKey i (x # xs) =
     restoreItems
       (restoreAttr root tbl (propKey @ ''.'' @ show_nat i)
          (propKey @ ''['' @ show_nat i @ '']'') x)
       tbl propKey (Suc i) xs"

text \<open>
  Both callers wrap the props of the element as \<open>{a: curEl.props}\<close>: the wrapper is
  new, the props object inside it is the caller's own, so what \<open>set\<close> writes under
  \<open>a\<close> is written into the props of the element.
\<close>

definition wrapProps :: "jsval \<Rightarrow> jsval" where
  "wrapProps props = JObj [(''a'', props)]"

definition unwrapProps :: "jsval \<Rightarrow> jsval \<Rightarrow> jsval" where
  "unwrapProps props root = (if isObject props then getProp root ''a'' else props)"

record pstate =
  curProps :: jsval
  templateAttrValues :: "string \<rightharpoonup> string"
  shapes :: "string list"

definition templatizeStep :: "pstate \<Rightarrow> string \<Rightarrow> pstate" where
  "templatizeStep ps attrKey =
     (let v = lodash_get (curProps ps) attrKey;
          st = templatizeAttr
                 \<lparr>origProps = wrapProps (curProps ps),
                  lookupPropTable = templateAttrValues ps,
                  addlCacheForArr = shapes ps\<rparr>
                 (''a.'' @ attrKey) (''a.'' @ attrKey) v
      in \<lparr>curProps = unwrapProps (curProps ps) (origProps st),
          templateAttrValues = lookupPropTable st,
          shapes = addlCacheForArr st\<rparr>)"

definition templatizeAll :: "string list \<Rightarrow> jsval \<Rightarrow> pstate" where
  "templatizeAll attrs props =
     foldl templatizeStep \<lparr>curProps = props, templateAttrValues = Map.empty, shapes = []\<rparr> attrs"

definition restoreStep :: "(string \<rightharpoonup> string) \<Rightarrow> jsval \<Rightarrow> string \<Rightarrow> jsval" where
  "restoreStep tbl props attrKey =
     (let v = lodash_get props attrKey
      in unwrapProps props
           (restoreAttr (wrapProps props) tbl (''a.'' @ attrKey) (''a.'' @ attrKey) v))"

section \<open>Templates\<close>

text \<open>
  \<open>template\<close> is lodash's: the compiled function replaces each \<open>${key}\<close> of the
  markup by the table's value for \<open>key\<close> and throws a ReferenceError when the table
  has none.  lodash evaluates what stands between the braces as a JavaScript
  expression and refuses, when it compiles the markup, what is not one; the model is
  that of a markup whose tokens hold an identifier and in which the other delimiters
  of lodash (\<open><%\<close> ... \<open>%>\<close>) do not occur.
\<close>

datatype exn = TypeError | ReferenceError string | Thrown string

function interpolate :: "string \<Rightarrow> (string \<rightharpoonup> string) \<Rightarrow> exn + string" where
  "interpolate [] tbl = Inr []"
| "interpolate (c # cs) tbl =
     (if c = CHR ''$'' \<and> startsWith cs ''{'' \<and> CHR ''}'' \<in> set cs then
        (let key = takeWhile (\<lambda>d. d \<noteq> CHR ''}'') (drop 1 cs);
             rest = drop (length key + 2) cs
         in case tbl key of
              None \<Rightarrow> Inl (ReferenceError key)
            | Some v \<Rightarrow>
                (case interpolate rest tbl of Inl e \<Rightarrow> Inl e | Inr out \<Rightarrow> Inr (v @ out)))
      else (case interpolate cs tbl of Inl e \<Rightarrow> Inl e | Inr out \<Rightarrow> Inr (c # out)))"
  by pat_completeness auto
termination
  by (relation "measure (\<lambda>(s, tbl). length s)") auto

declare interpolate.simps [simp del]

type_synonym compiledTemplate = "(string \<rightharpoonup> string) \<Rightarrow> exn + string"

definition template :: "string \<Rightarrow> compiledTemplate" where
  "template markup = (\<lambda>tbl. interpolate markup tbl)"

definition restorePropsAndProcessTemplate ::
  "compiledTemplate option \<Rightarrow> string list \<Rightarrow> (string \<rightharpoonup> string) \<Rightarrow> jsval
     \<Rightarrow> (exn + string) \<times> jsval" where
  "restorePropsAndProcessTemplate compiled templateAttrs tbl props =
     (let props' = foldl (restoreStep tbl) props templateAttrs
      in case compiled of
           None \<Rightarrow> (Inl TypeError, props')
         | Some f \<Rightarrow> (f tbl, props'))"





section \<open>Cache keys from the configuration\<close>

text \<open>
  A key generator is a function of the props; it is caller's code and may throw.
  \<open>JSON.stringify\<close> is modelled for the values of the model, with the escapes for
  the quote and the backslash.
\<close>

type_synonym keygen = "jsval \<Rightarrow> exn + jsval"

definition defaultCacheKeyFunction :: keygen where
  "defaultCacheKeyFunction props = Inr (JStr ''_defaultKey'')"

definition jsonQuote :: "string \<Rightarrow> string" where
  "jsonQuote s =
     [dquote] @
     concat (map (\<lambda>c. if c = dquote then [backslash, dquote]
                      else if c = backslash then [backslash, backslash] else [c]) s) @
     [dquote]"

fun stringify :: "jsval \<Rightarrow> string"
  and stringifyFields :: "(string \<times> jsval) list \<Rightarrow> string list"
  and stringifyItems :: "jsval list \<Rightarrow> string list" where
  "stringify JUndefined = ''null''"
| "stringify JNull = ''null''"
| "stringify (JBool b) = toString (JBool b)"
| "stringify (JNum i) = toString (JNum i)"
| "stringify (JStr s) = jsonQuote s"
| "stringify (JObj kvs) = ''{'' @ join '','' (stringifyFields kvs) @ ''}''"
| "stringify (JArr xs) = ''['' @ join '','' (stringifyItems xs) @ '']''"
| "stringifyFields [] = []"
| "stringifyFields (kv # kvs) =
     (if snd kv = JUndefined then [] else [jsonQuote (fst kv) @ '':'' @ stringify (snd kv)])
     @ stringifyFields kvs"
| "stringifyItems [] = []"
| "stringifyItems (x # xs) = stringify x # stringifyItems xs"

definition genAttrBasedKeyFunction :: "string list \<Rightarrow> keygen" where
  "genAttrBasedKeyFunction attrs props =
     Inr (JStr (foldl (\<lambda>key attr.
                   let val = lodash_get props attr
                   in key @ (if isObject val then stringify val else toString val))
                 [] attrs))"

datatype componentConfig =
    ConfigFunction keygen
  | ConfigObject "keygen option" "string list option" "string list option"

record cacheConfig =
  cacheKeyGen :: keygen
  templateAttrs :: "string list"

fun normalizeConfig :: "componentConfig \<Rightarrow> cacheConfig" where
  "normalizeConfig (ConfigFunction f) = \<lparr>cacheKeyGen = f, templateAttrs = []\<rparr>"
| "normalizeConfig (ConfigObject keyGen cacheAttrs tAttrs) =
     \<lparr>cacheKeyGen =
        (case keyGen of
           Some f \<Rightarrow> f
         | None \<Rightarrow>
            (case cacheAttrs of
               Some attrs \<Rightarrow>
                 if attrs \<noteq> [] then genAttrBasedKeyFunction attrs else defaultCacheKeyFunction
             | None \<Rightarrow> defaultCacheKeyFunction)),
      templateAttrs = (case tAttrs of Some t \<Rightarrow> t | None \<Rightarrow> [])\<rparr>"

record config =
  env :: "string list"
  cfgComponents :: "(string \<times> componentConfig) list"
  disabled :: bool
  eventCallback :: bool

record optimizer =
  components :: "string \<rightharpoonup> cacheConfig"
  componentsToCache :: "string list"
  enabled :: bool
  hasEventCallback :: bool

text \<open>
  The constructor: outside the listed environments (\<open>production\<close> is always
  listed) nothing is installed.  \<open>eventCallback\<close> of the configuration says whether
  an observer is registered.
\<close>

definition newOptimizer :: "string \<Rightarrow> config \<Rightarrow> optimizer option" where
  "newOptimizer nodeEnv cfg =
     (let envs = (if ''production'' \<in> set (env cfg) then env cfg
                  else env cfg @ [''production''])
      in if nodeEnv \<notin> set envs then None
         else Some \<lparr>components = map_of (map (\<lambda>(n, c). (n, normalizeConfig c)) (cfgComponents cfg)),
                    componentsToCache = map fst (cfgComponents cfg),
                    enabled = (\<not> disabled cfg),
                    hasEventCallback = eventCallback cfg\<rparr>)"

section \<open>The cache controller\<close>

text \<open>
  The state outside the props: the store (\<open>lruCache\<close>, here a map that forgets
  nothing; eviction is the store's own business), the history of the calls of the
  store's \<open>get\<close> and \<open>set\<close>, the props each call of the host renderer has seen, the
  callbacks queued by \<open>process.nextTick\<close> and the events the observer has received.
  The host renderer, the store and the compilation of a template are taken to
  return; the key generator, which the configuration supplies, and the compiled
  template may throw.
\<close>

record cachedObj =
  markup :: string
  compiled :: "compiledTemplate option"
  rootId :: string

datatype cacheOp = CacheGet string | CacheSet string

datatype eventKind = Hit | Miss

datatype cacheEvent = CacheEvent eventKind string

record world =
  lruCache :: "string \<rightharpoonup> cachedObj"
  cacheOps :: "cacheOp list"
  mounted :: "jsval list"
  nextTickQueue :: "cacheEvent list"
  observed :: "cacheEvent list"

definition emitEvent :: "optimizer \<Rightarrow> cacheEvent \<Rightarrow> world \<Rightarrow> world" where
  "emitEvent self event w =
     (if hasEventCallback self then w\<lparr>nextTickQueue := nextTickQueue w @ [event]\<rparr> else w)"


record element =
  displayName :: "string option"
  name :: string
  props :: jsval

definition shouldComponentBeCached :: "optimizer \<Rightarrow> element \<Rightarrow> bool" where
  "shouldComponentBeCached self curEl =
     ((case displayName curEl of Some d \<Rightarrow> d \<in> set (componentsToCache self) | None \<Rightarrow> False)
      \<or> name curEl \<in> set (componentsToCache self))"

definition cmpNameOf :: "element \<Rightarrow> string" where
  "cmpNameOf curEl =
     (case displayName curEl of
        Some d \<Rightarrow> if d \<noteq> [] then d else name curEl
      | None \<Rightarrow> name curEl)"

text \<open>
  \<open>cacheMarkup.replace(new RegExp(`data-reactid="${cachedObj.rootId}`, "g"), ...)\<close>,
  for a root id without characters special in a regular expression.
\<close>

function replaceAll :: "string \<Rightarrow> string \<Rightarrow> string \<Rightarrow> string" where
  "replaceAll needle repl [] = []"
| "replaceAll needle repl (c # cs) =
     (if needle \<noteq> [] \<and> startsWith (c # cs) needle
      then repl @ replaceAll needle repl (drop (length needle - 1) cs)
      else c # replaceAll needle repl cs)"
  by pat_completeness auto
termination
  by (relation "measure (\<lambda>(n, r, s). length s)") auto

declare replaceAll.simps [simp del]

definition replaceRootId :: "string \<Rightarrow> string \<Rightarrow> string \<Rightarrow> string" where
  "replaceRootId cachedRootId rootID cacheMarkup =
     replaceAll (''data-reactid='' @ [dquote] @ cachedRootId)
       (''data-reactid='' @ [dquote] @ rootID) cacheMarkup"

definition cacheKeyOf :: "string \<Rightarrow> jsval \<Rightarrow> string list \<Rightarrow> string" where
  "cacheKeyOf cmpName generatedKey addl =
     cmpName @ '':'' @ toString generatedKey @ '':'' @ join '','' addl"

text \<open>
  The wrapper installed around \<open>mountComponent\<close>.  \<open>mount\<close> is the host renderer,
  reading the props of the element.  The result is the markup or the exception thrown,
  the props of the element after the call, and the state.
\<close>

definition mountComponent ::
  "optimizer \<Rightarrow> (jsval \<Rightarrow> string) \<Rightarrow> element \<Rightarrow> string \<Rightarrow> world
     \<Rightarrow> (exn + string) \<times> jsval \<times> world" where
  "mountComponent self mount curEl rootID w =
     (let cmpName = cmpNameOf curEl
      in case components self cmpName of
           None \<Rightarrow> (Inl TypeError, props curEl, w)
         | Some cfg \<Rightarrow>
            (case cacheKeyGen cfg (props curEl) of
               Inl e \<Rightarrow> (Inl e, props curEl, w)
             | Inr generatedKey \<Rightarrow>
                 if generatedKey = JNull then
                   (Inr (mount (props curEl)), props curEl,
                    w\<lparr>mounted := mounted w @ [props curEl]\<rparr>)
                 else
                   (let tAttrs = templateAttrs cfg;
                        ps = templatizeAll tAttrs (props curEl);
                        cacheKey = cacheKeyOf cmpName generatedKey (shapes ps);
                        w1 = w\<lparr>cacheOps := cacheOps w @ [CacheGet cacheKey]\<rparr>
                    in case lruCache w cacheKey of
                         Some cached \<Rightarrow>
                           (let w2 = emitEvent self (CacheEvent Hit cmpName) w1;
                                r = (if tAttrs \<noteq> [] then
                                       restorePropsAndProcessTemplate (compiled cached) tAttrs
                                         (templateAttrValues ps) (curProps ps)
                                     else (Inr (markup cached), curProps ps))
                            in (map_sum id (replaceRootId (rootId cached) rootID) (fst r),
                                snd r, w2))
                       | None \<Rightarrow>
                           (let mk = mount (curProps ps);
                                compiledMarkup = (if tAttrs \<noteq> [] then Some (template mk) else None);
                                w2 = emitEvent self (CacheEvent Miss cmpName)
                                       (w1\<lparr>mounted := mounted w1 @ [curProps ps]\<rparr>);
                                w3 = w2\<lparr>lruCache := (lruCache w2)(cacheKey \<mapsto>
                                           \<lparr>markup = mk, compiled = compiledMarkup, rootId = rootID\<rparr>),
                                         cacheOps := cacheOps w2 @ [CacheSet cacheKey]\<rparr>
                            in if tAttrs \<noteq> [] then
                                 (let r = restorePropsAndProcessTemplate compiledMarkup tAttrs
                                            (templateAttrValues ps) (curProps ps)
                                  in (fst r, snd r, w3))
                               else (Inr mk, curProps ps, w3)))))"

text \<open>
  \<open>WrappedInstantiateReactComponent\<close>: the wrapper is installed only when caching
  is enabled and the component is configured; otherwise the host renderer runs alone.
\<close>

definition render ::
  "optimizer \<Rightarrow> (jsval \<Rightarrow> string) \<Rightarrow> element \<Rightarrow> string \<Rightarrow> world
     \<Rightarrow> (exn + string) \<times> jsval \<times> world" where
  "render self mount curEl rootID w =
     (if enabled self \<and> shouldComponentBeCached self curEl
      then mountComponent self mount curEl rootID w
      else (Inr (mount (props curEl)), props curEl, w\<lparr>mounted := mounted w @ [props curEl]\<rparr>))"

section \<open>Outcomes of a render call\<close>





section \<open>Shapes\<close>


section \<open>Plain keys, present paths and leaf rewriting\<close>















section \<open>Example components\<close>

text \<open>
  The components of the module's test suite: \<open>HelloWorld\<close> renders
  \<open>div(null, this.props.text)\<close>; the configurations are those of the tests.
\<close>

definition emptyWorld :: world where
  "emptyWorld =
     \<lparr>lruCache = Map.empty, cacheOps = [], mounted = [], nextTickQueue = [], observed = []\<rparr>"

definition helloWorld :: "jsval \<Rightarrow> element" where
  "helloWorld p = \<lparr>displayName = None, name = ''HelloWorld'', props = p\<rparr>"

definition divText :: "jsval \<Rightarrow> string" where
  "divText p = ''<div>'' @ toString (lodash_get p ''text'') @ ''</div>''"


definition production :: "(string \<times> componentConfig) list \<Rightarrow> optimizer" where
  "production cs =
     the (newOptimizer ''production''
            \<lparr>env = [], cfgComponents = cs, disabled = False, eventCallback = True\<rparr>)"

text \<open>
  \<open>function (props) { return props.text.indexOf("X") > -1 ? props.text : null; }\<close>;
  \<open>indexOf\<close> of a text that is not there throws a TypeError.
\<close>

definition keyWhenX :: keygen where
  "keyWhenX p =
     (case lodash_get p ''text'' of
        JStr s \<Rightarrow> Inr (if CHR ''X'' \<in> set s then JStr s else JNull)
      | _ \<Rightarrow> Inl TypeError)"


definition onlyWhenX :: optimizer where
  "onlyWhenX = production [(''HelloWorld'', ConfigObject (Some keyWhenX) None None)]"


definition templated :: "string list \<Rightarrow> optimizer" where
  "templated attrs = production [(''HelloWorld'', ConfigObject None None (Some attrs))]"





text \<open>A component that renders \<open>props.foo_.bar\<close> and \<open>props.foo._bar\<close>.\<close>

definition fooBars :: "jsval \<Rightarrow> string" where
  "fooBars p =
     toString (lodash_get p ''foo_.bar'') @ ''|'' @ toString (lodash_get p ''foo._bar'')"



section \<open>Values of the same shape\<close>































section \<open>Numerals and joined strings\<close>





















section \<open>Path strings of plain keys\<close>




















section \<open>\<open>set\<close> on a present path\<close>









































































section \<open>Substituting a token\<close>

lemma interpolate_plain: "CHR ''$'' \<notin> set s \<Longrightarrow> interpolate s tbl = Inr s"
  by (induction s) (auto simp: interpolate.simps)








section \<open>The cache key generator\<close>

text \<open>
  Claim C6 (null-key bypass): when the configured cache-key generator returns \<open>null\<close>,
  the call returns what the host renderer produces and changes nothing but the
  renderer's own record: the store is neither read nor written (\<open>lruCache\<close> and
  \<open>cacheOps\<close> stay as they are), no event is queued, and the host renderer runs.  The
  state \<open>w\<close> is arbitrary, so this holds however often the same input was seen before.
\<close>

theorem null_key_bypass:
  assumes "components self (cmpNameOf curEl) = Some cfg"
    and "cacheKeyGen cfg (props curEl) = Inr JNull"
  shows "render self mount curEl rootID w =
           (Inr (mount (props curEl)), props curEl, w\<lparr>mounted := mounted w @ [props curEl]\<rparr>)"
  using assms by (simp add: render_def mountComponent_def)

text \<open>
  The test "should cache components only when key is not null": a text without
  \<open>X\<close> is rendered by the host renderer.
\<close>

theorem null_key_bypass_witness:
  "components onlyWhenX (cmpNameOf (helloWorld (JObj [(''text'', JStr ''Hello World Y!'')])))
     = Some \<lparr>cacheKeyGen = keyWhenX, templateAttrs = []\<rparr>
   \<and> cacheKeyGen \<lparr>cacheKeyGen = keyWhenX, templateAttrs = []\<rparr>
         (props (helloWorld (JObj [(''text'', JStr ''Hello World Y!'')]))) = Inr JNull
   \<and> fst (render onlyWhenX divText (helloWorld (JObj [(''text'', JStr ''Hello World Y!'')]))
             ''1'' emptyWorld) = Inr ''<div>Hello World Y!</div>''"
proof -
  let ?el = "helloWorld (JObj [(''text'', JStr ''Hello World Y!'')])"
  let ?cfg = "\<lparr>cacheKeyGen = keyWhenX, templateAttrs = []\<rparr>"
  have h1: "components onlyWhenX (cmpNameOf ?el) = Some ?cfg"
    by (simp add: onlyWhenX_def production_def newOptimizer_def helloWorld_def cmpNameOf_def)
  have h2: "cacheKeyGen ?cfg (props ?el) = Inr JNull"
    by code_simp
  have "divText (props ?el) = ''<div>Hello World Y!</div>''"
    by code_simp
  with null_key_bypass [OF h1 h2, of divText "''1''" emptyWorld] h1 h2 show ?thesis
    by simp
qed

text \<open>
  Claim C7, as the code has it: a cache-key generator that throws makes the call
  throw.  The exception reaches the caller, the host renderer is not run, and the
  store is neither read nor written: the state is unchanged.
\<close>

theorem keygen_exception_propagates:
  assumes "components self (cmpNameOf curEl) = Some cfg"
    and "cacheKeyGen cfg (props curEl) = Inl e"
  shows "mountComponent self mount curEl rootID w = (Inl e, props curEl, w)"
  using assms by (simp add: mountComponent_def)

theorem keygen_exception_propagates_witness:
  "components onlyWhenX (cmpNameOf (helloWorld (JObj [])))
     = Some \<lparr>cacheKeyGen = keyWhenX, templateAttrs = []\<rparr>
   \<and> cacheKeyGen \<lparr>cacheKeyGen = keyWhenX, templateAttrs = []\<rparr> (props (helloWorld (JObj [])))
       = Inl TypeError
   \<and> fst (mountComponent onlyWhenX divText (helloWorld (JObj [])) ''1'' emptyWorld)
       = Inl TypeError"
proof -
  let ?el = "helloWorld (JObj [])"
  let ?cfg = "\<lparr>cacheKeyGen = keyWhenX, templateAttrs = []\<rparr>"
  have h1: "components onlyWhenX (cmpNameOf ?el) = Some ?cfg"
    by (simp add: onlyWhenX_def production_def newOptimizer_def helloWorld_def cmpNameOf_def)
  have h2: "cacheKeyGen ?cfg (props ?el) = Inl TypeError"
    by code_simp
  from keygen_exception_propagates [OF h1 h2, of divText "''1''" emptyWorld] h1 h2
  show ?thesis by simp
qed

text \<open>
  Claim C7 as stated (a throwing generator is a bypass) fails: with the generator of
  the test above and props without \<open>text\<close>, the call ends in the TypeError and the
  host renderer has not run.
\<close>

theorem keygen_exception_counterexample:
  "fst (render onlyWhenX divText (helloWorld (JObj [])) ''1'' emptyWorld) = Inl TypeError
   \<and> mounted (snd (snd (render onlyWhenX divText (helloWorld (JObj [])) ''1'' emptyWorld))) = []"
  by code_simp



section \<open>Events\<close>



section \<open>Flat keys and the round trip\<close>

text \<open>
  Claim C1 at a failing input: the paths \<open>foo_.bar\<close> and \<open>foo._bar\<close> are distinct
  and get the same flat key \<open>a_foo___bar\<close>, an underscore next to a separator being
  read both ways.  A component with both as template attributes then shows the
  second value in both places.
\<close>

theorem flatkey_collision:
  "flatKey ''a.foo_.bar'' = flatKey ''a.foo._bar''
   \<and> fst (render (templated [''foo_.bar'', ''foo._bar'']) fooBars
             (helloWorld (JObj [(''foo_'', JObj [(''bar'', JStr ''X'')]),
                                (''foo'', JObj [(''_bar'', JStr ''Y'')])]))
             ''1'' emptyWorld) = Inr ''Y|Y''"
  by code_simp

text \<open>
  Claim C3 at a failing input: flattening \<open>{data: {text: "a<b", n: 5}}\<close> and restoring
  it gives \<open>{data: {text: "a&lt;b", n: "5"}}\<close>, the escaped texts of the lookup table,
  not the original values.
\<close>

theorem roundtrip_escapes:
  "foldl (restoreStep (templateAttrValues (templatizeAll [''data'']
            (JObj [(''data'', JObj [(''text'', JStr ''a<b''), (''n'', JNum 5)])]))))
     (curProps (templatizeAll [''data'']
            (JObj [(''data'', JObj [(''text'', JStr ''a<b''), (''n'', JNum 5)])])))
     [''data'']
   = JObj [(''data'', JObj [(''text'', JStr ''a&lt;b''), (''n'', JStr ''5'')])]"
  by code_simp

section \<open>Substitution in place\<close>




section \<open>The cache key\<close>







section \<open>An absent template attribute\<close>




end
